theory Spec2Isabelle
  imports Main "HOL-Library.Word" "HOL-Library.Sublist" "HOL-Library.Char_ord"
    "HOL-Library.List_Lexorder"
begin

unbundle bit_operations_syntax

section \<open>Errors\<close>

text \<open>
  Every exception that the modelled functions or the library calls they make can raise.
  \<open>BodyError\<close> stands for whatever exception the body of a \<open>with\<close> block raises.
\<close>

datatype error =
    ValueError string
  | FileNotFoundError
  | NotADirectoryError
  | FileExistsError
  | BodyError string

section \<open>The array codec: \<open>serialize_numpy\<close> and \<open>deserialize_numpy\<close>\<close>

subsection \<open>numpy arrays\<close>

text \<open>
  The two functions call numpy (1.x, where \<open>ndarray.newbyteorder\<close> exists). An array
  object is a view on a buffer of bytes: the buffer it reads, the offset of its first
  element, its shape, its strides (in bytes, one per dimension, possibly negative) and its
  dtype. Of the dtype only the byte order and the item size matter here. An element is
  the \<open>itemsize\<close> bytes found at \<open>offset + \<Sum> index\<^sub>k * stride\<^sub>k\<close>; its value
  is the 64-bit pattern those bytes denote under the byte order of the dtype (the IEEE-754
  double with that pattern). Array objects and buffers live in a heap, so that a view
  shares the buffer of the array it was taken from.
\<close>

type_synonym byte = "8 word"

datatype endian = Little | Big

record dtype =
  byteorder :: endian
  itemsize :: nat

record ndarray =
  nd_data :: nat
  nd_offset :: int
  nd_shape :: "nat list"
  nd_strides :: "int list"
  nd_dtype :: dtype

record heap =
  buffers :: "byte list list"
  arrays :: "ndarray list"

text \<open>All indices of an array of the given shape, in row-major order (last index fastest).\<close>

fun indices :: "nat list \<Rightarrow> nat list list" where
  "indices [] = [[]]"
| "indices (d # ds) = concat (map (\<lambda>i. map ((#) i) (indices ds)) [0..<d])"

definition item_offset :: "ndarray \<Rightarrow> nat list \<Rightarrow> int" where
  "item_offset a idx = nd_offset a + sum_list (map2 (\<lambda>i s. int i * s) idx (nd_strides a))"

definition item_bytes :: "byte list \<Rightarrow> ndarray \<Rightarrow> nat list \<Rightarrow> byte list" where
  "item_bytes buf a idx =
     map (\<lambda>k. buf ! nat (item_offset a idx + int k)) [0..<itemsize (nd_dtype a)]"

text \<open>The 64-bit pattern that eight bytes denote: most significant byte first or last.\<close>

definition be_word :: "byte list \<Rightarrow> 64 word" where
  "be_word bs = foldl (\<lambda>acc b. push_bit 8 acc OR ucast b) 0 bs"

definition decode :: "endian \<Rightarrow> byte list \<Rightarrow> 64 word" where
  "decode e bs = (case e of Big \<Rightarrow> be_word bs | Little \<Rightarrow> be_word (rev bs))"

text \<open>The eight bytes of a 64-bit pattern, most significant first: the big-endian encoding.\<close>

definition be_bytes :: "64 word \<Rightarrow> byte list" where
  "be_bytes w = map (\<lambda>k. ucast (drop_bit (8 * (7 - k)) w)) [0..<8]"

definition encode :: "endian \<Rightarrow> 64 word \<Rightarrow> byte list" where
  "encode e w = (case e of Big \<Rightarrow> be_bytes w | Little \<Rightarrow> rev (be_bytes w))"

text \<open>The value of the element of array object \<open>a\<close> at index \<open>idx\<close>.\<close>

definition item :: "heap \<Rightarrow> nat \<Rightarrow> nat list \<Rightarrow> 64 word" where
  "item h a idx =
     (let arr = arrays h ! a
      in decode (byteorder (nd_dtype arr)) (item_bytes (buffers h ! nd_data arr) arr idx))"

text \<open>
  \<open>ndarray.newbyteorder(order)\<close> is \<open>arr.view(arr.dtype.newbyteorder(order))\<close>: a new
  array object on the same buffer, whose dtype has the byte order asked for. No byte of
  the buffer moves.
\<close>

definition dtype_newbyteorder :: "dtype \<Rightarrow> endian \<Rightarrow> dtype" where
  "dtype_newbyteorder dt new_order = dt\<lparr>byteorder := new_order\<rparr>"

definition newbyteorder :: "heap \<Rightarrow> nat \<Rightarrow> endian \<Rightarrow> nat \<times> heap" where
  "newbyteorder h a new_order =
     (let arr = arrays h ! a;
          view = arr\<lparr>nd_dtype := dtype_newbyteorder (nd_dtype arr) new_order\<rparr>
      in (length (arrays h), h\<lparr>arrays := arrays h @ [view]\<rparr>))"

text \<open>
  \<open>ndarray.tobytes()\<close>: a copy of the raw bytes of the elements, in row-major order of
  the indices, whatever the strides are.
\<close>

definition tobytes :: "heap \<Rightarrow> nat \<Rightarrow> byte list" where
  "tobytes h a =
     (let arr = arrays h ! a
      in concat (map (item_bytes (buffers h ! nd_data arr) arr) (indices (nd_shape arr))))"

text \<open>
  \<open>np.dtype('float')\<close> is the 8-byte float in the byte order of the platform, which is
  a parameter of the model.
\<close>

definition dtype_float :: "endian \<Rightarrow> dtype" where
  "dtype_float native = \<lparr>byteorder = native, itemsize = 8\<rparr>"

text \<open>
  \<open>np.frombuffer(buf, dtype)\<close>: a one-dimensional array on the bytes given; the number
  of bytes must be a multiple of the item size.
\<close>

definition frombuffer :: "heap \<Rightarrow> byte list \<Rightarrow> dtype \<Rightarrow> error + nat \<times> heap" where
  "frombuffer h buf dt =
     (if itemsize dt = 0 then Inl (ValueError ''cannot determine count if itemsize is 0'')
      else if length buf mod itemsize dt \<noteq> 0
        then Inl (ValueError ''buffer size must be a multiple of element size'')
      else Inr (length (arrays h),
        h\<lparr>buffers := buffers h @ [buf],
          arrays := arrays h @
            [\<lparr>nd_data = length (buffers h), nd_offset = 0,
              nd_shape = [length buf div itemsize dt],
              nd_strides = [int (itemsize dt)], nd_dtype = dt\<rparr>]\<rparr>))"

text \<open>
  \<open>ndarray.reshape(shape)\<close>. One entry of the new shape may be negative (\<open>-1\<close> in the
  documentation): that dimension is inferred from the number of elements. Otherwise the
  product of the new shape must be the number of elements.
\<close>

definition fix_unknown_dimension :: "int list \<Rightarrow> nat \<Rightarrow> error + nat list" where
  "fix_unknown_dimension dims s_original =
     (let unknown = filter (\<lambda>d. d < 0) dims;
          s_known = prod_list (map nat (filter (\<lambda>d. 0 \<le> d) dims))
      in if 1 < length unknown
           then Inl (ValueError ''can only specify one unknown dimension'')
         else if unknown \<noteq> [] then
           (if s_known = 0 \<or> s_original mod s_known \<noteq> 0
              then Inl (ValueError ''cannot reshape array into shape'')
            else Inr (map (\<lambda>d. if d < 0 then s_original div s_known else nat d) dims))
         else if s_original \<noteq> s_known
           then Inl (ValueError ''cannot reshape array into shape'')
         else Inr (map nat dims))"

text \<open>The strides of a row-major (C-contiguous) array.\<close>

fun c_strides :: "nat \<Rightarrow> nat list \<Rightarrow> int list" where
  "c_strides sz [] = []"
| "c_strides sz (d # ds) = int (sz * prod_list ds) # c_strides sz ds"

text \<open>
  \<open>reshape\<close> is called here only on the contiguous one-dimensional array that
  \<open>frombuffer\<close> made; numpy then returns a view on the same buffer with row-major strides.
\<close>

definition reshape :: "heap \<Rightarrow> nat \<Rightarrow> int list \<Rightarrow> error + nat \<times> heap" where
  "reshape h a newshape =
     (let arr = arrays h ! a
      in case fix_unknown_dimension newshape (prod_list (nd_shape arr)) of
           Inl e \<Rightarrow> Inl e
         | Inr dims \<Rightarrow>
             Inr (length (arrays h),
               h\<lparr>arrays := arrays h @
                 [arr\<lparr>nd_shape := dims,
                      nd_strides := c_strides (itemsize (nd_dtype arr)) dims\<rparr>]\<rparr>))"

subsection \<open>The two functions\<close>

text \<open>
  \<open>serialize_numpy\<close> takes a view of its argument with big-endian dtype, copies the raw
  bytes of that view and returns them with the shape of the argument.
\<close>

definition serialize_numpy :: "heap \<Rightarrow> nat \<Rightarrow> (byte list \<times> nat list) \<times> heap" where
  "serialize_numpy h np_array =
     (let (bigendian_array, h1) = newbyteorder h np_array Big;
          serialized = tobytes h1 bigendian_array;
          shape = nd_shape (arrays h1 ! np_array)
      in ((serialized, shape), h1))"

text \<open>
  \<open>deserialize_numpy\<close> makes the dtype \<open>dt\<close>, calls \<open>dt.newbyteorder('>')\<close> and drops
  what that call returns (a dtype is immutable, so \<open>dt\<close> stays as it was), reads the
  bytes with \<open>dt\<close> and reshapes.
\<close>

definition deserialize_numpy ::
  "endian \<Rightarrow> heap \<Rightarrow> byte list \<Rightarrow> int list \<Rightarrow> error + nat \<times> heap" where
  "deserialize_numpy native h serialized_np shape =
     (let dt = dtype_float native;
          dropped = dtype_newbyteorder dt Big
      in case frombuffer h serialized_np dt of
           Inl e \<Rightarrow> Inl e
         | Inr (np_array, h1) \<Rightarrow> reshape h1 np_array shape)"

text \<open>
  The round trip of the specification, \<open>deserialize_numpy(*serialize_numpy(A))\<close>, and
  what is read off its result: the shape and the elements of the array returned.
\<close>

definition roundtrip :: "endian \<Rightarrow> heap \<Rightarrow> nat \<Rightarrow> error + nat \<times> heap" where
  "roundtrip native h np_array =
     (let ((serialized, shape), h1) = serialize_numpy h np_array
      in deserialize_numpy native h1 serialized (map int shape))"

definition result_shape :: "error + nat \<times> heap \<Rightarrow> nat list option" where
  "result_shape r = (case r of Inl e \<Rightarrow> None | Inr (b, h) \<Rightarrow> Some (nd_shape (arrays h ! b)))"

definition result_item :: "error + nat \<times> heap \<Rightarrow> nat list \<Rightarrow> 64 word option" where
  "result_item r idx = (case r of Inl e \<Rightarrow> None | Inr (b, h) \<Rightarrow> Some (item h b idx))"

text \<open>
  The byte string the specification describes: the big-endian encoding of each element,
  in row-major order.
\<close>

definition big_endian_bytes :: "heap \<Rightarrow> nat \<Rightarrow> byte list" where
  "big_endian_bytes h a =
     concat (map (\<lambda>idx. encode Big (item h a idx)) (indices (nd_shape (arrays h ! a))))"

section \<open>The file system: \<open>temporary_cd\<close>, \<open>temporary_directory\<close>, \<open>get_data_filename\<close>\<close>

subsection \<open>Paths\<close>

text \<open>
  Paths are strings; \<open>isabs\<close>, \<open>join\<close>, \<open>normpath\<close> and \<open>abspath\<close> are those of
  \<open>posixpath\<close>.
\<close>

type_synonym path = string

definition isabs :: "path \<Rightarrow> bool" where
  "isabs p = (case p of [] \<Rightarrow> False | c # cs \<Rightarrow> c = CHR ''/'')"

definition path_join :: "path \<Rightarrow> path \<Rightarrow> path" where
  "path_join a b =
     (if isabs b then b
      else if a = [] \<or> last a = CHR ''/'' then a @ b
      else a @ ''/'' @ b)"





subsection \<open>The state of the process and of the file system\<close>

text \<open>
  The current working directory of the process and the table of the nodes that exist,
  by absolute path. Permissions and symbolic links are not modelled. The calls below are
  given absolute paths by the source, which are looked up in the table as they are.
\<close>

datatype kind = Dir | File

record filesystem =
  cwd :: path
  nodes :: "path \<rightharpoonup> kind"




definition path_exists :: "filesystem \<Rightarrow> path \<Rightarrow> bool" where
  "path_exists s p = (nodes s p \<noteq> None)"



subsection \<open>The context managers\<close>





subsection \<open>\<open>get_data_filename\<close>\<close>

text \<open>
  \<open>pkg_resources.resource_filename\<close> is a parameter: it maps the package name and the
  resource name to a path of the installation.
\<close>

definition get_data_filename ::
  "(string \<Rightarrow> string \<Rightarrow> path) \<Rightarrow> filesystem \<Rightarrow> path \<Rightarrow> error + path" where
  "get_data_filename resource_filename s relative_path =
     (let fn = resource_filename ''openforcefield'' (path_join ''data'' relative_path)
      in if \<not> path_exists s fn
           then Inl (ValueError (''Sorry! '' @ fn @
             '' does not exist. If you just added it, you'' @ [CHR 0x27] @
             ''ll have to re-install''))
         else Inr fn)"

section \<open>Classes: \<open>inherit_docstrings\<close> and \<open>all_subclasses\<close>\<close>

subsection \<open>Classes and their attributes\<close>

text \<open>
  A class has its own dictionary of attributes and its method-resolution order, which
  starts with the class itself. Attribute values are objects; every object has a
  \<open>__doc__\<close>, which is \<open>None\<close> or a string and is the only thing that
  \<open>inherit_docstrings\<close> writes. Descriptors and metaclasses are not modelled:
  \<open>getattr\<close> on a class returns the object found in the first dictionary of the
  method-resolution order that has the name.
\<close>

type_synonym cls = nat
type_synonym obj = nat

record pyclass =
  cls_dict :: "(string \<times> obj) list"
  mro :: "cls list"

record pystate =
  classes :: "cls \<Rightarrow> pyclass"
  is_function :: "obj \<Rightarrow> bool"
  doc :: "obj \<Rightarrow> string option"

fun lookup_mro :: "pystate \<Rightarrow> cls list \<Rightarrow> string \<Rightarrow> obj option" where
  "lookup_mro st [] name = None"
| "lookup_mro st (k # ks) name =
     (case map_of (cls_dict (classes st k)) name of
        Some v \<Rightarrow> Some v
      | None \<Rightarrow> lookup_mro st ks name)"

definition getattr :: "pystate \<Rightarrow> cls \<Rightarrow> string \<Rightarrow> obj option" where
  "getattr st c name = lookup_mro st (mro (classes st c)) name"

definition hasattr :: "pystate \<Rightarrow> cls \<Rightarrow> string \<Rightarrow> bool" where
  "hasattr st c name = (getattr st c name \<noteq> None)"

text \<open>
  \<open>inspect.getmembers(cls, isfunction)\<close>: the names of \<open>dir(cls)\<close> (those of the
  dictionaries of all classes of the method-resolution order), each once and in
  alphabetical order, with the value \<open>getattr\<close> gives, kept when the value is a
  function.
\<close>

definition dir_names :: "pystate \<Rightarrow> cls \<Rightarrow> string list" where
  "dir_names st c =
     sort (remdups (concat (map (\<lambda>k. map fst (cls_dict (classes st k))) (mro (classes st c)))))"

definition getmembers :: "pystate \<Rightarrow> cls \<Rightarrow> (string \<times> obj) list" where
  "getmembers st c =
     concat (map (\<lambda>name. case getattr st c name of
                            None \<Rightarrow> []
                          | Some v \<Rightarrow> if is_function st v then [(name, v)] else [])
                 (dir_names st c))"

text \<open>Python's truth value of a \<open>__doc__\<close>: \<open>None\<close> and the empty string are false.\<close>

definition truthy :: "string option \<Rightarrow> bool" where
  "truthy d = (case d of None \<Rightarrow> False | Some text \<Rightarrow> text \<noteq> [])"

subsection \<open>\<open>inherit_docstrings\<close>\<close>

text \<open>
  The inner loop visits every class of \<open>cls.__mro__[1:]\<close> and assigns at each one that
  has the attribute; no \<open>break\<close> ends it at the first.
\<close>

fun inherit_parents :: "pystate \<Rightarrow> string \<Rightarrow> obj \<Rightarrow> cls list \<Rightarrow> pystate" where
  "inherit_parents st name func [] = st"
| "inherit_parents st name func (parent # parents) =
     (if hasattr st parent name
      then (case getattr st parent name of
              None \<Rightarrow> inherit_parents st name func parents
            | Some v \<Rightarrow> inherit_parents (st\<lparr>doc := (doc st)(func := doc st v)\<rparr>) name func parents)
      else inherit_parents st name func parents)"

fun inherit_members :: "pystate \<Rightarrow> cls \<Rightarrow> (string \<times> obj) list \<Rightarrow> pystate" where
  "inherit_members st c [] = st"
| "inherit_members st c ((name, func) # members) =
     (if truthy (doc st func) then inherit_members st c members
      else inherit_members (inherit_parents st name func (tl (mro (classes st c)))) c members)"

definition inherit_docstrings :: "pystate \<Rightarrow> cls \<Rightarrow> cls \<times> pystate" where
  "inherit_docstrings st c = (c, inherit_members st c (getmembers st c))"

text \<open>
  What the documentation of the function asks for, in the words of the specification: the
  docstring of the first class of \<open>cls.__mro__[1:]\<close> that has the attribute.
\<close>

definition first_ancestor_doc :: "pystate \<Rightarrow> cls \<Rightarrow> string \<Rightarrow> string option" where
  "first_ancestor_doc st c name =
     (case filter (\<lambda>parent. hasattr st parent name) (tl (mro (classes st c))) of
        [] \<Rightarrow> None
      | parent # others \<Rightarrow> (case getattr st parent name of None \<Rightarrow> None | Some v \<Rightarrow> doc st v))"

subsection \<open>\<open>all_subclasses\<close>\<close>



section \<open>Example inputs\<close>

text \<open>
  The array \<open>[[1.0, 2.0], [3.0, 4.0]]\<close> of native 8-byte floats on a little-endian
  platform, and the one-element array \<open>[1.0]\<close> of dtype \<open>'>f8'\<close> (big-endian floats).
\<close>

definition ex_le_heap :: heap where
  "ex_le_heap =
     \<lparr>buffers = [[0, 0, 0, 0, 0, 0, 0xF0, 0x3F,  0, 0, 0, 0, 0, 0, 0, 0x40,
                  0, 0, 0, 0, 0, 0, 0x08, 0x40,  0, 0, 0, 0, 0, 0, 0x10, 0x40]],
      arrays = [\<lparr>nd_data = 0, nd_offset = 0, nd_shape = [2, 2], nd_strides = [16, 8],
                 nd_dtype = \<lparr>byteorder = Little, itemsize = 8\<rparr>\<rparr>]\<rparr>"

definition ex_be_heap :: heap where
  "ex_be_heap =
     \<lparr>buffers = [[0x3F, 0xF0, 0, 0, 0, 0, 0, 0]],
      arrays = [\<lparr>nd_data = 0, nd_offset = 0, nd_shape = [1], nd_strides = [8],
                 nd_dtype = \<lparr>byteorder = Big, itemsize = 8\<rparr>\<rparr>]\<rparr>"

text \<open>An empty array of shape \<open>(2, 0, 3)\<close>, as \<open>numpy.zeros((2, 0, 3))\<close> makes it.\<close>

definition ex_zero_heap :: heap where
  "ex_zero_heap =
     \<lparr>buffers = [[]],
      arrays = [\<lparr>nd_data = 0, nd_offset = 0, nd_shape = [2, 0, 3], nd_strides = [24, 24, 8],
                 nd_dtype = \<lparr>byteorder = Little, itemsize = 8\<rparr>\<rparr>]\<rparr>"

definition ex_empty_heap :: heap where
  "ex_empty_heap = \<lparr>buffers = [], arrays = []\<rparr>"






text \<open>An installation that has the data file \<open>a.xml\<close> and no \<open>b.xml\<close>.\<close>

definition ex_resource_filename :: "string \<Rightarrow> string \<Rightarrow> path" where
  "ex_resource_filename package resource = ''/site-packages/'' @ package @ ''/'' @ resource"

definition ex_installed :: filesystem where
  "ex_installed = \<lparr>cwd = ''/home'',
     nodes = [''/home'' \<mapsto> Dir, ''/site-packages/openforcefield/data/a.xml'' \<mapsto> File]\<rparr>"

text \<open>
  \<open>class A: def f(self): "A doc"\<close>, \<open>class B(A): def f(self): "B doc"\<close> and
  \<open>class C(B): def f(self): pass\<close>: the classes 1, 2 and 3 (0 is \<open>object\<close>), whose
  functions \<open>f\<close> are the objects 10, 11 and 12.
\<close>

definition ex_py :: pystate where
  "ex_py =
     \<lparr>classes = (\<lambda>k. if k = 1 then \<lparr>cls_dict = [(''f'', 10)], mro = [1, 0]\<rparr>
                     else if k = 2 then \<lparr>cls_dict = [(''f'', 11)], mro = [2, 1, 0]\<rparr>
                     else if k = 3 then \<lparr>cls_dict = [(''f'', 12)], mro = [3, 2, 1, 0]\<rparr>
                     else \<lparr>cls_dict = [], mro = [0]\<rparr>),
      is_function = (\<lambda>v. v = 10 \<or> v = 11 \<or> v = 12),
      doc = (\<lambda>v. if v = 10 then Some ''A doc'' else if v = 11 then Some ''B doc'' else None)\<rparr>"



section \<open>Properties of the array codec\<close>

subsection \<open>What \<open>serialize_numpy\<close> returns\<close>

lemma length_indices: "length (indices sh) = prod_list sh"
proof (induction sh)
  case Nil
  show ?case by simp
next
  case (Cons d ds)
  have "length (concat (map (\<lambda>i. map ((#) i) (indices ds)) [0..<d])) = d * prod_list ds"
    using Cons.IH by (induction d) simp_all
  then show ?case by simp
qed

lemma length_item_bytes: "length (item_bytes buf a idx) = itemsize (nd_dtype a)"
  by (simp add: item_bytes_def)

lemma length_concat_const:
  "(\<And>x. x \<in> set xs \<Longrightarrow> length (f x) = n) \<Longrightarrow> length (concat (map f xs)) = n * length xs"
  by (induction xs) simp_all

lemma length_tobytes:
  "length (tobytes h a) =
     itemsize (nd_dtype (arrays h ! a)) * prod_list (nd_shape (arrays h ! a))"
  by (simp add: tobytes_def Let_def length_concat_const length_item_bytes length_indices)

lemma item_bytes_newbyteorder:
  "item_bytes buf (arr\<lparr>nd_dtype := dtype_newbyteorder (nd_dtype arr) e\<rparr>) = item_bytes buf arr"
  by (rule ext) (simp add: item_bytes_def item_offset_def dtype_newbyteorder_def)

text \<open>What \<open>serialize_numpy\<close> returns and the heap it leaves, with the view unfolded.\<close>

lemma serialize_numpy_eq:
  "serialize_numpy h a =
     ((tobytes h a,
       nd_shape ((arrays h @
         [(arrays h ! a)\<lparr>nd_dtype := dtype_newbyteorder (nd_dtype (arrays h ! a)) Big\<rparr>]) ! a)),
      h\<lparr>arrays := arrays h @
         [(arrays h ! a)\<lparr>nd_dtype := dtype_newbyteorder (nd_dtype (arrays h ! a)) Big\<rparr>]\<rparr>)"
  by (simp add: serialize_numpy_def newbyteorder_def Let_def tobytes_def
      item_bytes_newbyteorder nth_append)

lemma roundtrip_eq:
  "roundtrip native h a =
     deserialize_numpy native (snd (serialize_numpy h a)) (fst (fst (serialize_numpy h a)))
       (map int (snd (fst (serialize_numpy h a))))"
  by (simp add: roundtrip_def split_beta)

lemmas codec_defs = serialize_numpy_eq tobytes_def item_def item_bytes_def
  item_offset_def decode_def be_word_def dtype_newbyteorder_def deserialize_numpy_def
  frombuffer_def reshape_def fix_unknown_dimension_def dtype_float_def Let_def
  upt_conv_Cons roundtrip_eq result_shape_def result_item_def

text \<open>
  C6. For an array object of the heap whose elements have 8 bytes, \<open>serialize_numpy\<close>
  returns 8 times the product of the shape many bytes, and the shape of the array; the
  shape is any list of dimensions, of any length, zeros included.
\<close>

theorem serialize_numpy_length_shape:
  assumes "a < length (arrays h)" and "itemsize (nd_dtype (arrays h ! a)) = 8"
  shows "length (fst (fst (serialize_numpy h a))) = 8 * prod_list (nd_shape (arrays h ! a))
       \<and> snd (fst (serialize_numpy h a)) = nd_shape (arrays h ! a)"
  using assms by (simp add: serialize_numpy_eq length_tobytes nth_append)

theorem serialize_numpy_length_shape_witness:
  "length (fst (fst (serialize_numpy ex_le_heap 0))) = 32
   \<and> snd (fst (serialize_numpy ex_le_heap 0)) = [2, 2]
   \<and> length (fst (fst (serialize_numpy ex_zero_heap 0))) = 0
   \<and> snd (fst (serialize_numpy ex_zero_heap 0)) = [2, 0, 3]"
  using serialize_numpy_length_shape [of 0 ex_le_heap]
    serialize_numpy_length_shape [of 0 ex_zero_heap]
  by (simp add: ex_le_heap_def ex_zero_heap_def)

text \<open>
  C10. \<open>serialize_numpy\<close> leaves its argument as it was: no buffer changes, every
  array object of the heap keeps its fields (shape, strides, dtype, buffer), the argument
  among them, and its elements read as before. The heap gains one array object, the
  big-endian view.
\<close>

theorem serialize_numpy_frame:
  assumes "a < length (arrays h)"
  shows "buffers (snd (serialize_numpy h a)) = buffers h
       \<and> take (length (arrays h)) (arrays (snd (serialize_numpy h a))) = arrays h
       \<and> length (arrays (snd (serialize_numpy h a))) = Suc (length (arrays h))
       \<and> arrays (snd (serialize_numpy h a)) ! a = arrays h ! a
       \<and> item (snd (serialize_numpy h a)) a = item h a"
  using assms by (auto simp: serialize_numpy_eq nth_append item_def fun_eq_iff)

theorem serialize_numpy_frame_witness:
  "buffers (snd (serialize_numpy ex_le_heap 0)) = buffers ex_le_heap
       \<and> take 1 (arrays (snd (serialize_numpy ex_le_heap 0))) = arrays ex_le_heap
       \<and> length (arrays (snd (serialize_numpy ex_le_heap 0))) = 2
       \<and> arrays (snd (serialize_numpy ex_le_heap 0)) ! 0 = arrays ex_le_heap ! 0
       \<and> item (snd (serialize_numpy ex_le_heap 0)) 0 = item ex_le_heap 0"
  using serialize_numpy_frame [of 0 ex_le_heap] by (simp add: ex_le_heap_def)

subsection \<open>The round trip\<close>

text \<open>
  The bytes of a row-major array that starts at offset \<open>off\<close> of its buffer, read in
  the order of \<open>indices\<close>, are the bytes of the buffer from \<open>off\<close> on.
\<close>

lemma map_nth_take_drop:
  "m + n \<le> length xs \<Longrightarrow> map (\<lambda>k. xs ! (m + k)) [0..<n] = take n (drop m xs)"
  by (rule nth_equalityI) simp_all

lemma concat_chunks:
  "concat (map (\<lambda>i. take n (drop (m + i * n) xs)) [0..<d]) = take (d * n) (drop m xs)"
proof (induction d)
  case 0
  show ?case by simp
next
  case (Suc d)
  have "take (Suc d * n) (drop m xs) = take (d * n + n) (drop m xs)"
    by (simp only: mult_Suc add.commute)
  also have "\<dots> = take (d * n) (drop m xs) @ take n (drop (d * n) (drop m xs))"
    by (rule take_add)
  also have "drop (d * n) (drop m xs) = drop (m + d * n) xs"
    by (simp only: drop_drop add.commute)
  finally show ?case using Suc by simp
qed

lemma concat_map_concat:
  "concat (map f (concat xss)) = concat (map (\<lambda>xs. concat (map f xs)) xss)"
  by (induction xss) simp_all

lemma concat_contiguous:
  assumes "0 \<le> off" and "nat off + sz * prod_list sh \<le> length buf"
  shows "concat (map (\<lambda>idx. map (\<lambda>k. buf ! nat (off + sum_list (map2 (\<lambda>i s. int i * s) idx (c_strides sz sh)) + int k)) [0..<sz])
           (indices sh))
         = take (sz * prod_list sh) (drop (nat off) buf)"
  using assms
proof (induction sh arbitrary: off)
  case Nil
  have "\<And>k. nat (off + int k) = nat off + k" using Nil.prems(1) by simp
  then show ?case using Nil.prems map_nth_take_drop [of "nat off" sz buf] by simp
next
  case (Cons d ds)
  let ?n = "sz * prod_list ds"
  have step: "concat (map (\<lambda>idx. map (\<lambda>k. buf ! nat (off + sum_list (map2 (\<lambda>i s. int i * s) idx (c_strides sz (d # ds))) + int k)) [0..<sz])
                (map ((#) i) (indices ds)))
              = take ?n (drop (nat off + i * ?n) buf)" if "i < d" for i
  proof -
    have le: "(Suc i) * ?n \<le> d * ?n" using that by (intro mult_le_mono1) simp
    have b: "nat (off + int i * int ?n) + ?n \<le> length buf"
    proof -
      have "nat (off + int i * int ?n) = nat off + i * ?n"
        using Cons.prems(1) by (simp add: nat_add_distrib nat_mult_distrib)
      moreover have "nat off + i * ?n + ?n \<le> nat off + d * ?n" using le by simp
      moreover have "d * ?n = sz * prod_list (d # ds)" by simp
      ultimately show ?thesis using Cons.prems(2) by simp
    qed
    have "concat (map (\<lambda>idx. map (\<lambda>k. buf ! nat (off + sum_list (map2 (\<lambda>i s. int i * s) idx (c_strides sz (d # ds))) + int k)) [0..<sz])
                (map ((#) i) (indices ds)))
        = concat (map (\<lambda>idx. map (\<lambda>k. buf ! nat ((off + int i * int ?n) + sum_list (map2 (\<lambda>i s. int i * s) idx (c_strides sz ds)) + int k)) [0..<sz])
                (indices ds))"
      by (simp add: comp_def add.assoc)
    also have "\<dots> = take ?n (drop (nat (off + int i * int ?n)) buf)"
      using Cons.IH [of "off + int i * int ?n"] Cons.prems(1) b by simp
    also have "nat (off + int i * int ?n) = nat off + i * ?n"
      using Cons.prems(1) by (simp add: nat_add_distrib nat_mult_distrib)
    finally show ?thesis .
  qed
  have "concat (map (\<lambda>idx. map (\<lambda>k. buf ! nat (off + sum_list (map2 (\<lambda>i s. int i * s) idx (c_strides sz (d # ds))) + int k)) [0..<sz])
           (indices (d # ds)))
        = concat (map (\<lambda>i. concat (map (\<lambda>idx. map (\<lambda>k. buf ! nat (off + sum_list (map2 (\<lambda>i s. int i * s) idx (c_strides sz (d # ds))) + int k)) [0..<sz])
                (map ((#) i) (indices ds)))) [0..<d])"
    by (simp only: indices.simps concat_map_concat map_map comp_def)
  also have "\<dots> = concat (map (\<lambda>i. take ?n (drop (nat off + i * ?n) buf)) [0..<d])"
    using step by (intro arg_cong [where f = concat] map_cong) simp_all
  also have "\<dots> = take (d * ?n) (drop (nat off) buf)"
    by (rule concat_chunks)
  finally show ?case by (simp add: mult.left_commute mult.assoc)
qed

lemma concat_map_inj:
  assumes "\<And>x. x \<in> set xs \<Longrightarrow> length (f x) = n" and "\<And>x. x \<in> set xs \<Longrightarrow> length (g x) = n"
    and "concat (map f xs) = concat (map g xs)"
  shows "\<forall>x\<in>set xs. f x = g x"
  using assms by (induction xs) auto

lemma fix_unknown_dimension_nonneg:
  "fix_unknown_dimension (map int sh) n =
     (if n \<noteq> prod_list sh then Inl (ValueError ''cannot reshape array into shape'') else Inr sh)"
proof -
  have "filter (\<lambda>d. d < 0) (map int sh) = []" by (induction sh) simp_all
  moreover have "filter (\<lambda>d. 0 \<le> d) (map int sh) = map int sh" by (induction sh) simp_all
  moreover have "map nat (map int sh) = sh" by (induction sh) simp_all
  ultimately show ?thesis by (simp add: fix_unknown_dimension_def)
qed

lemma deserialize_numpy_fits:
  assumes "length bs = 8 * prod_list sh"
  shows "deserialize_numpy native h bs (map int sh) =
     Inr (Suc (length (arrays h)),
       h\<lparr>buffers := buffers h @ [bs],
         arrays := arrays h @
           [\<lparr>nd_data = length (buffers h), nd_offset = 0, nd_shape = [prod_list sh],
             nd_strides = [8], nd_dtype = dtype_float native\<rparr>,
            \<lparr>nd_data = length (buffers h), nd_offset = 0, nd_shape = sh,
             nd_strides = c_strides 8 sh, nd_dtype = dtype_float native\<rparr>]\<rparr>)"
  using assms
  by (simp add: deserialize_numpy_def frombuffer_def reshape_def Let_def dtype_float_def
      fix_unknown_dimension_nonneg)

lemma item_bytes_contiguous:
  assumes "length bs = sz * prod_list sh"
  shows "concat (map (item_bytes bs \<lparr>nd_data = d, nd_offset = 0, nd_shape = sh,
             nd_strides = c_strides sz sh, nd_dtype = \<lparr>byteorder = e, itemsize = sz\<rparr>\<rparr>) (indices sh)) = bs"
  using concat_contiguous [of 0 sz sh bs] assms
  by (simp add: item_bytes_def [abs_def] item_offset_def)

lemma roundtrip_native:
  assumes "a < length (arrays h)" and "nd_dtype (arrays h ! a) = dtype_float native"
  shows "\<exists>b h2. deserialize_numpy native (snd (serialize_numpy h a))
             (fst (fst (serialize_numpy h a))) (map int (snd (fst (serialize_numpy h a)))) = Inr (b, h2)
           \<and> nd_shape (arrays h2 ! b) = nd_shape (arrays h ! a)
           \<and> nd_dtype (arrays h2 ! b) = nd_dtype (arrays h ! a)
           \<and> (\<forall>idx \<in> set (indices (nd_shape (arrays h ! a))). item h2 b idx = item h a idx)"
proof -
  let ?A = "arrays h ! a"
  let ?sh = "nd_shape ?A"
  let ?bs = "tobytes h a"
  let ?h1 = "snd (serialize_numpy h a)"
  let ?B = "\<lparr>nd_data = length (buffers h), nd_offset = 0, nd_shape = ?sh,
             nd_strides = c_strides 8 ?sh, nd_dtype = dtype_float native\<rparr>"
  have sz: "itemsize (nd_dtype ?A) = 8" using assms(2) by (simp add: dtype_float_def)
  have len: "length ?bs = 8 * prod_list ?sh" using sz by (simp add: length_tobytes)
  have ser: "fst (fst (serialize_numpy h a)) = ?bs" "snd (fst (serialize_numpy h a)) = ?sh"
    "buffers ?h1 = buffers h" "length (arrays ?h1) = Suc (length (arrays h))"
    using assms(1) by (simp_all add: serialize_numpy_eq nth_append)
  define h2 where "h2 = ?h1\<lparr>buffers := buffers ?h1 @ [?bs],
         arrays := arrays ?h1 @
           [\<lparr>nd_data = length (buffers ?h1), nd_offset = 0, nd_shape = [prod_list ?sh],
             nd_strides = [8], nd_dtype = dtype_float native\<rparr>,
            \<lparr>nd_data = length (buffers ?h1), nd_offset = 0, nd_shape = ?sh,
             nd_strides = c_strides 8 ?sh, nd_dtype = dtype_float native\<rparr>]\<rparr>"
  have des: "deserialize_numpy native ?h1 ?bs (map int ?sh) = Inr (Suc (length (arrays ?h1)), h2)"
    unfolding h2_def by (rule deserialize_numpy_fits [OF len])
  have B: "arrays h2 ! Suc (length (arrays ?h1)) = ?B"
    by (simp add: h2_def ser nth_append)
  have buf: "buffers h2 ! length (buffers h) = ?bs"
    by (simp add: h2_def ser)
  have "concat (map (item_bytes ?bs ?B) (indices ?sh)) = ?bs"
    using item_bytes_contiguous [of ?bs 8 ?sh "length (buffers h)" native] len
    by (simp add: dtype_float_def)
  then have "concat (map (item_bytes ?bs ?B) (indices ?sh))
           = concat (map (item_bytes (buffers h ! nd_data ?A) ?A) (indices ?sh))"
    by (simp add: tobytes_def Let_def)
  then have eq: "\<forall>idx \<in> set (indices ?sh). item_bytes ?bs ?B idx = item_bytes (buffers h ! nd_data ?A) ?A idx"
    by (intro concat_map_inj [where n = 8]) (simp_all add: length_item_bytes sz dtype_float_def)
  have "\<forall>idx \<in> set (indices ?sh). item h2 (Suc (length (arrays ?h1))) idx = item h a idx"
    using eq by (simp add: item_def Let_def B buf assms(2))
  then show ?thesis using des B ser assms(2) by simp
qed

text \<open>
  For an array whose dtype is the native 8-byte float, whatever its strides, the round
  trip returns an array of the same shape whose elements have the same bit patterns.
\<close>

lemma roundtrip_native_arrays:
  assumes "a < length (arrays h)" and "nd_dtype (arrays h ! a) = dtype_float native"
  shows "result_shape (roundtrip native h a) = Some (nd_shape (arrays h ! a))
       \<and> (\<forall>idx \<in> set (indices (nd_shape (arrays h ! a))).
             result_item (roundtrip native h a) idx = Some (item h a idx))"
proof -
  obtain b h2 where "roundtrip native h a = Inr (b, h2)"
    and "nd_shape (arrays h2 ! b) = nd_shape (arrays h ! a)"
    and "\<forall>idx \<in> set (indices (nd_shape (arrays h ! a))). item h2 b idx = item h a idx"
    using roundtrip_native [OF assms] unfolding roundtrip_eq by blast
  then show ?thesis by (simp add: result_shape_def result_item_def)
qed

text \<open>
  C1. The round trip is not the identity on every array of 8-byte floats. On a
  little-endian platform, the array \<open>[1.0]\<close> of dtype \<open>'>f8'\<close> holds the bytes
  \<open>3F F0 00 00 00 00 00 00\<close>; \<open>serialize_numpy\<close> returns these bytes as they are,
  and \<open>deserialize_numpy\<close> reads them in native order: the element that was
  \<open>0x3FF0000000000000\<close> (1.0) comes back as \<open>0x000000000000F03F\<close> (about 3.04e-319).
\<close>

theorem roundtrip_big_endian_input:
  "item ex_be_heap 0 [0] = 0x3FF0000000000000
   \<and> result_shape (roundtrip Little ex_be_heap 0) = Some [1]
   \<and> result_item (roundtrip Little ex_be_heap 0) [0] = Some 0xF03F"
  by (simp add: ex_be_heap_def codec_defs)

text \<open>
  C2. The bytes are not big-endian on a little-endian platform. For the native array
  \<open>[[1.0, 2.0], [3.0, 4.0]]\<close>, \<open>serialize_numpy\<close> returns the little-endian bytes of
  the buffer, not the big-endian encoding of the elements; and \<open>deserialize_numpy\<close>
  reads the big-endian encoding of 1.0 as \<open>0x000000000000F03F\<close>.
\<close>

theorem serialize_numpy_not_big_endian:
  "fst (fst (serialize_numpy ex_le_heap 0)) =
     [0, 0, 0, 0, 0, 0, 0xF0, 0x3F,  0, 0, 0, 0, 0, 0, 0, 0x40,
      0, 0, 0, 0, 0, 0, 0x08, 0x40,  0, 0, 0, 0, 0, 0, 0x10, 0x40]
   \<and> big_endian_bytes ex_le_heap 0 =
     [0x3F, 0xF0, 0, 0, 0, 0, 0, 0,  0x40, 0, 0, 0, 0, 0, 0, 0,
      0x40, 0x08, 0, 0, 0, 0, 0, 0,  0x40, 0x10, 0, 0, 0, 0, 0, 0]
   \<and> encode Big 0x3FF0000000000000 = [0x3F, 0xF0, 0, 0, 0, 0, 0, 0]
   \<and> result_item (deserialize_numpy Little ex_empty_heap [0x3F, 0xF0, 0, 0, 0, 0, 0, 0] [1]) [0]
       = Some 0xF03F"
  by (simp add: ex_le_heap_def ex_empty_heap_def codec_defs big_endian_bytes_def encode_def be_bytes_def)

subsection \<open>Byte strings that do not fit the shape\<close>




section \<open>Properties of the context managers\<close>








section \<open>Properties of \<open>get_data_filename\<close>\<close>

text \<open>
  C7. \<open>get_data_filename\<close> returns the resolved path when it exists, and otherwise
  raises a \<open>ValueError\<close> whose message contains the resolved path.
\<close>

theorem get_data_filename_result:
  "(path_exists s (resource_filename ''openforcefield'' (path_join ''data'' relative_path)) \<longrightarrow>
      get_data_filename resource_filename s relative_path =
        Inr (resource_filename ''openforcefield'' (path_join ''data'' relative_path)))
   \<and> (\<not> path_exists s (resource_filename ''openforcefield'' (path_join ''data'' relative_path)) \<longrightarrow>
      (\<exists>msg. get_data_filename resource_filename s relative_path = Inl (ValueError msg)
         \<and> sublist (resource_filename ''openforcefield'' (path_join ''data'' relative_path)) msg))"
proof -
  let ?fn = "resource_filename ''openforcefield'' (path_join ''data'' relative_path)"
  let ?msg = "''Sorry! '' @ ?fn @ '' does not exist. If you just added it, you'' @ [CHR 0x27] @
             ''ll have to re-install''"
  have contains: "sublist ?fn ?msg" by (rule sublist_appendI)
  have eq: "get_data_filename resource_filename s relative_path =
          (if \<not> path_exists s ?fn then Inl (ValueError ?msg) else Inr ?fn)"
    by (simp only: get_data_filename_def Let_def)
  show ?thesis
  proof (cases "path_exists s ?fn")
    case True
    then have "get_data_filename resource_filename s relative_path = Inr ?fn"
      by (simp only: eq not_not if_False simp_thms)
    with True show ?thesis by blast
  next
    case False
    then have "get_data_filename resource_filename s relative_path = Inl (ValueError ?msg)"
      by (simp only: eq if_True simp_thms)
    with False contains show ?thesis by blast
  qed
qed

theorem get_data_filename_result_witness:
  "get_data_filename ex_resource_filename ex_installed ''a.xml'' =
     Inr ''/site-packages/openforcefield/data/a.xml''
   \<and> get_data_filename ex_resource_filename ex_installed ''b.xml'' =
     Inl (ValueError (''Sorry! /site-packages/openforcefield/data/b.xml does not exist. '' @
       ''If you just added it, you'' @ [CHR 0x27] @ ''ll have to re-install''))"
  using get_data_filename_result [of ex_installed ex_resource_filename "''a.xml''"]
    get_data_filename_result [of ex_installed ex_resource_filename "''b.xml''"]
  by (simp add: ex_installed_def ex_resource_filename_def get_data_filename_def
      path_exists_def path_join_def isabs_def)

section \<open>Properties of \<open>inherit_docstrings\<close>\<close>

text \<open>
  \<open>inherit_docstrings\<close> writes only the \<open>__doc__\<close> of functions whose docstring is
  empty: an object that has a docstring keeps it.
\<close>

lemma inherit_parents_frame:
  "classes (inherit_parents st name func ps) = classes st
   \<and> is_function (inherit_parents st name func ps) = is_function st
   \<and> (v \<noteq> func \<longrightarrow> doc (inherit_parents st name func ps) v = doc st v)"
  by (induction st name func ps rule: inherit_parents.induct)
     (auto simp: hasattr_def getattr_def split: option.splits)

lemma inherit_members_keeps:
  "truthy (doc st v) \<Longrightarrow> doc (inherit_members st c members) v = doc st v"
proof (induction st c members rule: inherit_members.induct)
  case (1 st c)
  show ?case by simp
next
  case (2 st c name func members)
  show ?case
  proof (cases "truthy (doc st func)")
    case True
    then show ?thesis using 2 by simp
  next
    case False
    then have ne: "v \<noteq> func" using "2.prems" by auto
    let ?st = "inherit_parents st name func (tl (mro (classes st c)))"
    have same: "doc ?st v = doc st v" using inherit_parents_frame [of st name func _ v] ne by simp
    have "doc (inherit_members ?st c members) v = doc ?st v"
      using "2.IH"(2) [OF False] "2.prems" same by simp
    then show ?thesis using False same by simp
  qed
qed

lemma inherit_docstrings_keeps_docstrings:
  "truthy (doc st v) \<Longrightarrow> doc (snd (inherit_docstrings st c)) v = doc st v"
  by (simp add: inherit_docstrings_def inherit_members_keeps)

text \<open>
  C8. The docstring that \<open>inherit_docstrings\<close> gives is not that of the first ancestor
  that has the attribute. For \<open>C(B)\<close>, \<open>B(A)\<close>, each class defining \<open>f\<close>, with
  docstrings in \<open>A\<close> and \<open>B\<close> only, the first class of \<open>C.__mro__[1:]\<close> with an
  \<open>f\<close> is \<open>B\<close>, and \<open>C.f.__doc__\<close> becomes the docstring of \<open>A.f\<close>: the loop
  over the ancestors goes on after the first assignment.
\<close>

theorem inherit_docstrings_last_ancestor:
  "getmembers ex_py 3 = [(''f'', 12)]
   \<and> doc ex_py 12 = None
   \<and> first_ancestor_doc ex_py 3 ''f'' = Some ''B doc''
   \<and> doc (snd (inherit_docstrings ex_py 3)) 12 = Some ''A doc''"
  by (simp add: ex_py_def inherit_docstrings_def getmembers_def dir_names_def getattr_def
      hasattr_def truthy_def first_ancestor_doc_def)

section \<open>Properties of \<open>all_subclasses\<close>\<close>

lemma those_Some: "those ys = Some gs \<Longrightarrow> ys = map Some gs"
  by (induction ys arbitrary: gs) (auto split: option.splits)

lemma those_map_Some: "those (map Some gs) = Some gs"
  by (induction gs) simp_all









end
